theory Spec2Isabelle
  imports Complex_Main
begin

chapter \<open>MediSim3D: procedural heart models\<close>

text \<open>
  The repository holds three browser visualisations of a heart
  (\<^verbatim>\<open>simulations/heart\<close>, \<^verbatim>\<open>simulations/cardiac-cross-section\<close>,
  \<^verbatim>\<open>simulations/cardiac-cycle\<close>). Each deforms a sphere into a ventricle once,
  pulses the ventricle and atrium meshes on every animation frame, and labels the part
  under the pointer.

  JavaScript numbers are modelled as \<^typ>\<open>real\<close>: the arithmetic of the source is read
  without rounding. Mutable globals and mesh properties become fields of records that the
  functions take and return.
\<close>

section \<open>The model\<close>

subsection \<open>Vectors and vertex buffers\<close>

text \<open>\<^verbatim>\<open>THREE.Vector3\<close>: the three components of a position or of a scale.\<close>

datatype Vector3 = Vector3 (vx: real) (vy: real) (vz: real)

text \<open>
  \<^verbatim>\<open>geometry.attributes.position\<close>: the source reaches the vertices only through
  \<^verbatim>\<open>count\<close>, \<^verbatim>\<open>getX/getY/getZ(i)\<close> and \<^verbatim>\<open>setX/setY/setXYZ(i, ..)\<close>, so the buffer
  is the sequence of its vertices. A write at an index outside the buffer is dropped, as a
  typed array drops it; the loops below only use indices below \<^verbatim>\<open>count\<close>.
\<close>

type_synonym BufferAttribute = "Vector3 list"

definition attr_count :: "BufferAttribute \<Rightarrow> nat" where
  "attr_count p = length p"

definition getX :: "BufferAttribute \<Rightarrow> nat \<Rightarrow> real" where
  "getX p i = vx (p ! i)"

definition getY :: "BufferAttribute \<Rightarrow> nat \<Rightarrow> real" where
  "getY p i = vy (p ! i)"

definition getZ :: "BufferAttribute \<Rightarrow> nat \<Rightarrow> real" where
  "getZ p i = vz (p ! i)"

definition setX :: "BufferAttribute \<Rightarrow> nat \<Rightarrow> real \<Rightarrow> BufferAttribute" where
  "setX p i v = p[i := Vector3 v (vy (p ! i)) (vz (p ! i))]"

definition setY :: "BufferAttribute \<Rightarrow> nat \<Rightarrow> real \<Rightarrow> BufferAttribute" where
  "setY p i v = p[i := Vector3 (vx (p ! i)) v (vz (p ! i))]"

definition setXYZ :: "BufferAttribute \<Rightarrow> nat \<Rightarrow> real \<Rightarrow> real \<Rightarrow> real \<Rightarrow> BufferAttribute" where
  "setXYZ p i a b c = p[i := Vector3 a b c]"

subsection \<open>Shape Deformer\<close>

text \<open>
  \<^verbatim>\<open>heart/logic.js\<close> lines 50-59 and \<^verbatim>\<open>cardiac-cross-section/logic.js\<close> lines 47-55:
  \<^verbatim>\<open>
  for ( let i = 0; i < posAttribute.count; i ++ ) {
      const x = posAttribute.getX( i );
      const y = posAttribute.getY( i );
      const z = posAttribute.getZ( i );
      const y_mod = y * 1.2;
      posAttribute.setX( i, x * (1.0 - y * 0.2) );
      posAttribute.setY( i, y_mod );
  }
  \<close>
  The two literals are the shape constants: \<open>taper\<close> is \<^verbatim>\<open>0.2\<close> and \<open>stretch\<close> is
  \<^verbatim>\<open>1.2\<close> in both files. The loop body and the loop are written with the constants as
  arguments; the deformers of the two files are the instances below.
\<close>

definition deform_body :: "real \<Rightarrow> real \<Rightarrow> nat \<Rightarrow> BufferAttribute \<Rightarrow> BufferAttribute" where
  "deform_body taper stretch i posAttribute =
     (let x = getX posAttribute i;
          y = getY posAttribute i;
          z = getZ posAttribute i;
          y_mod = y * stretch;
          posAttribute = setX posAttribute i (x * (1 - y * taper))
      in setY posAttribute i y_mod)"

function deform_loop :: "real \<Rightarrow> real \<Rightarrow> nat \<Rightarrow> BufferAttribute \<Rightarrow> BufferAttribute" where
  "deform_loop taper stretch i posAttribute =
     (if i < attr_count posAttribute
      then deform_loop taper stretch (i + 1) (deform_body taper stretch i posAttribute)
      else posAttribute)"
  by pat_completeness auto
termination
  by (relation "measure (\<lambda>(taper, stretch, i, p). attr_count p - i)")
     (auto simp: deform_body_def attr_count_def setX_def setY_def Let_def)

definition shape_deformer :: "real \<Rightarrow> real \<Rightarrow> BufferAttribute \<Rightarrow> BufferAttribute" where
  "shape_deformer taper stretch posAttribute = deform_loop taper stretch 0 posAttribute"

definition heart_deformer :: "BufferAttribute \<Rightarrow> BufferAttribute" where
  "heart_deformer = shape_deformer (2 / 10) (12 / 10)"

definition cross_section_deformer :: "BufferAttribute \<Rightarrow> BufferAttribute" where
  "cross_section_deformer = shape_deformer (2 / 10) (12 / 10)"

text \<open>
  \<^verbatim>\<open>cardiac-cycle/logic.js\<close> lines 93-108:
  \<^verbatim>\<open>
  for(let i=0; i<pos.count; i++){
      let x = pos.getX(i);
      let y = pos.getY(i);
      let z = pos.getZ(i);
      if(y < 0) { x *= (1.0 + y * 0.25); z *= (1.0 + y * 0.25); }
      if(z < 0) z *= 0.8;
      pos.setXYZ(i, x, y, z);
  }
  \<close>
  The second test reads the \<^verbatim>\<open>z\<close> that the first branch may have changed.
\<close>

definition cycle_deform_body :: "nat \<Rightarrow> BufferAttribute \<Rightarrow> BufferAttribute" where
  "cycle_deform_body i pos =
     (let x = getX pos i;
          y = getY pos i;
          z = getZ pos i;
          x = (if y < 0 then x * (1 + y * (25 / 100)) else x);
          z = (if y < 0 then z * (1 + y * (25 / 100)) else z);
          z = (if z < 0 then z * (8 / 10) else z)
      in setXYZ pos i x y z)"

function cycle_deform_loop :: "nat \<Rightarrow> BufferAttribute \<Rightarrow> BufferAttribute" where
  "cycle_deform_loop i pos =
     (if i < attr_count pos
      then cycle_deform_loop (i + 1) (cycle_deform_body i pos)
      else pos)"
  by pat_completeness auto
termination
  by (relation "measure (\<lambda>(i, p). attr_count p - i)")
     (auto simp: cycle_deform_body_def attr_count_def setXYZ_def Let_def)

definition cycle_deformer :: "BufferAttribute \<Rightarrow> BufferAttribute" where
  "cycle_deformer pos = cycle_deform_loop 0 pos"

text \<open>
  The loops write into the buffer they read, and the geometry keeps that buffer. Running
  a loop twice on one geometry therefore runs it the second time on what the first run
  left there. The pair is what the geometry holds after the first and after the second
  run.
\<close>

definition deform_twice ::
  "real \<Rightarrow> real \<Rightarrow> BufferAttribute \<Rightarrow> BufferAttribute \<times> BufferAttribute" where
  "deform_twice taper stretch posAttribute =
     (let first = shape_deformer taper stretch posAttribute;
          second = shape_deformer taper stretch first
      in (first, second))"

definition cycle_deform_twice :: "BufferAttribute \<Rightarrow> BufferAttribute \<times> BufferAttribute" where
  "cycle_deform_twice pos =
     (let first = cycle_deformer pos;
          second = cycle_deformer first
      in (first, second))"

text \<open>
  The per-vertex maps that the loop bodies apply, read off the bodies.
\<close>

definition deform_vertex :: "real \<Rightarrow> real \<Rightarrow> Vector3 \<Rightarrow> Vector3" where
  "deform_vertex taper stretch v = Vector3 (vx v * (1 - vy v * taper)) (vy v * stretch) (vz v)"

definition cycle_deform_vertex :: "Vector3 \<Rightarrow> Vector3" where
  "cycle_deform_vertex v =
     (let x = (if vy v < 0 then vx v * (1 + vy v * (25 / 100)) else vx v);
          z = (if vy v < 0 then vz v * (1 + vy v * (25 / 100)) else vz v);
          z = (if z < 0 then z * (8 / 10) else z)
      in Vector3 x (vy v) z)"

subsection \<open>Beat Animator\<close>

text \<open>
  The globals \<^verbatim>\<open>time\<close> and \<^verbatim>\<open>bpm\<close> and the \<^verbatim>\<open>scale\<close> vectors of the two pulsing
  meshes (\<^verbatim>\<open>ventricles\<close>, and \<^verbatim>\<open>atrium\<close>, which \<^verbatim>\<open>cardiac-cycle\<close> calls \<^verbatim>\<open>atria\<close>).
\<close>

record beat_state =
  time :: real
  bpm :: real
  ventricles_scale :: Vector3
  atrium_scale :: Vector3

text \<open>
  The state when \<^verbatim>\<open>animate\<close> first runs. A new \<^verbatim>\<open>THREE.Mesh\<close> has scale \<open>(1, 1, 1)\<close>;
  the atrium scale is set at construction (\<^verbatim>\<open>heart/logic.js\<close> line 68,
  \<^verbatim>\<open>cardiac-cross-section/logic.js\<close> line 64, \<^verbatim>\<open>cardiac-cycle/logic.js\<close> line 120).
\<close>

definition heart_init :: beat_state where
  "heart_init =
     \<lparr>time = 0, bpm = 60, ventricles_scale = Vector3 1 1 1,
      atrium_scale = Vector3 (11 / 10) (6 / 10) 1\<rparr>"

definition cross_section_init :: beat_state where
  "cross_section_init =
     \<lparr>time = 0, bpm = 60, ventricles_scale = Vector3 1 1 1,
      atrium_scale = Vector3 (11 / 10) (6 / 10) 1\<rparr>"

definition cycle_init :: beat_state where
  "cycle_init =
     \<lparr>time = 0, bpm = 75, ventricles_scale = Vector3 1 1 1,
      atrium_scale = Vector3 (12 / 10) (7 / 10) 1\<rparr>"

text \<open>
  The slider handlers. \<^verbatim>\<open>heart\<close> and \<^verbatim>\<open>cardiac-cross-section\<close> store
  \<^verbatim>\<open>e.target.value\<close> as it is, and \<^verbatim>\<open>bpm / 60\<close> later reads it as a number;
  \<^verbatim>\<open>cardiac-cycle\<close> stores \<^verbatim>\<open>parseInt(e.target.value)\<close>. None of them tests the value.
\<close>

definition heart_bpm_input :: "real \<Rightarrow> beat_state \<Rightarrow> beat_state" where
  "heart_bpm_input v s = s\<lparr>bpm := v\<rparr>"

definition cross_section_bpm_input :: "real \<Rightarrow> beat_state \<Rightarrow> beat_state" where
  "cross_section_bpm_input v s = s\<lparr>bpm := v\<rparr>"

definition cycle_bpm_input :: "int \<Rightarrow> beat_state \<Rightarrow> beat_state" where
  "cycle_bpm_input v s = s\<lparr>bpm := of_int v\<rparr>"

text \<open>
  The pulse of \<^verbatim>\<open>animate\<close>, \<^verbatim>\<open>heart/logic.js\<close> lines 121-126:
  \<^verbatim>\<open>
  time += 0.01 * (bpm / 60);
  const scale = 1 + Math.sin(time * 10) * 0.05;
  ventricles.scale.set(scale, scale, scale);
  atrium.scale.set(1 + Math.sin(time * 10 + 1) * 0.03, 1, 1);
  \<close>
  \<^verbatim>\<open>cardiac-cross-section/logic.js\<close> lines 115-119 are the same four statements.
\<close>

definition heart_pulse :: "beat_state \<Rightarrow> beat_state" where
  "heart_pulse s =
     (let time' = time s + (1 / 100) * (bpm s / 60);
          scale = 1 + sin (time' * 10) * (5 / 100)
      in s\<lparr>time := time',
            ventricles_scale := Vector3 scale scale scale,
            atrium_scale := Vector3 (1 + sin (time' * 10 + 1) * (3 / 100)) 1 1\<rparr>)"

definition cross_section_pulse :: "beat_state \<Rightarrow> beat_state" where
  "cross_section_pulse s =
     (let time' = time s + (1 / 100) * (bpm s / 60);
          scale = 1 + sin (time' * 10) * (5 / 100)
      in s\<lparr>time := time',
            ventricles_scale := Vector3 scale scale scale,
            atrium_scale := Vector3 (1 + sin (time' * 10 + 1) * (3 / 100)) 1 1\<rparr>)"

text \<open>The angle whose sine drives the ventricle in these two files: \<^verbatim>\<open>time * 10\<close>.\<close>

definition heart_phase :: "beat_state \<Rightarrow> real" where
  "heart_phase s = time s * 10"

text \<open>
  Modelled from the spec: \<^verbatim>\<open>THREE.Vector3.lerp\<close> belongs to the rendering library, which
  is not part of the sources; the specification gives it as
  \<^verbatim>\<open>current += (target - current) * smoothingFactor\<close>, on each component.
\<close>

definition lerp :: "Vector3 \<Rightarrow> Vector3 \<Rightarrow> real \<Rightarrow> Vector3" where
  "lerp c v alpha =
     Vector3 (vx c + (vx v - vx c) * alpha)
             (vy c + (vy v - vy c) * alpha)
             (vz c + (vz v - vz c) * alpha)"

text \<open>
  The beat of \<^verbatim>\<open>animate\<close>, \<^verbatim>\<open>cardiac-cycle/logic.js\<close> lines 276-286:
  \<^verbatim>\<open>
  const beatSpeed = (bpm / 60) * Math.PI * 2;
  time += 0.01;
  const beat = Math.sin(time * beatSpeed * 2);
  const contraction = 1 + (beat > 0.5 ? 0.05 : 0);
  ventricles.scale.lerp(new THREE.Vector3(contraction, contraction, contraction), 0.2);
  atria.scale.lerp(new THREE.Vector3(1.2 + (beat < 0 ? 0.03 : 0), 0.7, 1), 0.2);
  \<close>
\<close>

definition cycle_beat :: "beat_state \<Rightarrow> beat_state" where
  "cycle_beat s =
     (let beatSpeed = (bpm s / 60) * pi * 2;
          time' = time s + 1 / 100;
          beat = sin (time' * beatSpeed * 2);
          contraction = 1 + (if beat > 5 / 10 then 5 / 100 else 0)
      in s\<lparr>time := time',
            ventricles_scale :=
              lerp (ventricles_scale s) (Vector3 contraction contraction contraction) (2 / 10),
            atrium_scale :=
              lerp (atrium_scale s)
                (Vector3 (12 / 10 + (if beat < 0 then 3 / 100 else 0)) (7 / 10) 1) (2 / 10)\<rparr>)"

text \<open>The angle \<^verbatim>\<open>time * beatSpeed\<close> of this file; the beat is the sine of twice it.\<close>

definition cycle_phase :: "beat_state \<Rightarrow> real" where
  "cycle_phase s = time s * ((bpm s / 60) * pi * 2)"

text \<open>
  A session of \<^verbatim>\<open>cardiac-cycle\<close>: animation frames and slider inputs, in the order the
  browser delivers them.
\<close>

datatype cycle_event = Frame | SliderInput int

fun cycle_step :: "cycle_event \<Rightarrow> beat_state \<Rightarrow> beat_state" where
  "cycle_step Frame s = cycle_beat s"
| "cycle_step (SliderInput v) s = cycle_bpm_input v s"

definition cycle_run :: "cycle_event list \<Rightarrow> beat_state \<Rightarrow> beat_state" where
  "cycle_run evs s = fold cycle_step evs s"

text \<open>
  A scale vector whose three components all lie between two bounds.
\<close>

definition scale_within :: "real \<Rightarrow> real \<Rightarrow> Vector3 \<Rightarrow> bool" where
  "scale_within lo hi v =
     (lo \<le> vx v \<and> vx v \<le> hi \<and> lo \<le> vy v \<and> vy v \<le> hi \<and> lo \<le> vz v \<and> vz v \<le> hi)"

subsection \<open>Hover-Pick Annotation\<close>

text \<open>
  A child of \<^verbatim>\<open>heartGroup\<close> as the hover code of \<^verbatim>\<open>heart\<close> and
  \<^verbatim>\<open>cardiac-cross-section\<close> sees it: which object it is, and its \<^verbatim>\<open>userData.name\<close>
  and \<^verbatim>\<open>userData.info\<close>, absent when the object was given none.
\<close>

record scene_object =
  obj_id :: nat
  userData_name :: "string option"
  userData_info :: "string option"

text \<open>
  \<^verbatim>\<open>cardiac-cycle\<close> also reads which material the object has (materials are shared
  between meshes), whether that material has an \<^verbatim>\<open>emissive\<close> colour, and the centre of
  the object's bounding box in world space. Its description is \<^verbatim>\<open>userData.desc\<close>, kept
  in the field \<open>userData_info\<close>.
\<close>

record cycle_object = scene_object +
  material_id :: nat
  has_emissive :: bool
  bbox_center :: Vector3

text \<open>JavaScript's test \<^verbatim>\<open>if (v)\<close> on a string that may be undefined, and \<^verbatim>\<open>String(v)\<close>.\<close>

fun truthy :: "string option \<Rightarrow> bool" where
  "truthy None = False"
| "truthy (Some v) = (v \<noteq> [])"

fun js_string :: "string option \<Rightarrow> string" where
  "js_string None = ''undefined''"
| "js_string (Some v) = v"

text \<open>
  A function either returns or throws; what it had written before it threw stays written.
\<close>

datatype js_error = TypeError

datatype 'a outcome = Returned 'a | Threw js_error 'a

text \<open>
  What \<^verbatim>\<open>animate\<close> writes to the page in \<^verbatim>\<open>heart\<close> and \<^verbatim>\<open>cardiac-cross-section\<close>:
  \<^verbatim>\<open>document.body.style.cursor\<close>, the tooltip's opacity, text and position (in pixels),
  and the content, background and border of the \<^verbatim>\<open>anatomy-text\<close> panel.
\<close>

record hover_ui =
  cursor :: string
  tooltip_opacity :: real
  tooltip_text :: string
  tooltip_left :: real
  tooltip_top :: real
  anatomy_html :: string
  anatomy_background :: string
  anatomy_border :: string

record pointer_event =
  clientX :: real
  clientY :: real

text \<open>
  \<^verbatim>\<open>heart/logic.js\<close> lines 132-149. \<^verbatim>\<open>intersects\<close> is the list the ray caster returns,
  nearest hit first, each given by its \<^verbatim>\<open>object\<close>.
  \<^verbatim>\<open>
  if ( intersects.length > 0 ) {
      const object = intersects[0].object;
      if(object.userData.name) {
          document.body.style.cursor = 'pointer';
          tooltip.style.opacity = 1;
          tooltip.innerText = object.userData.name;
          tooltip.style.left = (event.clientX + 10) + 'px';
          tooltip.style.top = (event.clientY + 10) + 'px';
          anatomyText.innerHTML = `<strong>${object.userData.name}</strong><br>${object.userData.info}`;
          anatomyText.style.background = "rgba(14, 165, 233, 0.2)";
      }
  } else {
      document.body.style.cursor = 'default';
      tooltip.style.opacity = 0;
      anatomyText.style.background = "rgba(255,255,255,0.1)";
      anatomyText.innerHTML = "Hover over parts of the model to identify them.";
  }
  \<close>
  \<^verbatim>\<open>animate\<close> has no parameter and the module declares no \<^verbatim>\<open>event\<close>, so \<^verbatim>\<open>event\<close> is the
  global \<^verbatim>\<open>window.event\<close>: the event being dispatched, or undefined when none is. It is
  an argument here, \<open>None\<close> for undefined; reading \<^verbatim>\<open>clientX\<close> of undefined throws a
  \<^verbatim>\<open>TypeError\<close>. \<^verbatim>\<open>animate\<close> is called at the end of the module and from
  \<^verbatim>\<open>requestAnimationFrame\<close>, never by an event dispatch.
\<close>

definition heart_hover :: "pointer_event option \<Rightarrow> scene_object list \<Rightarrow> hover_ui \<Rightarrow> hover_ui outcome" where
  "heart_hover event intersects ui =
     (case intersects of
        object # _ \<Rightarrow>
          if truthy (userData_name object) then
            (let ui = ui\<lparr>cursor := ''pointer'',
                         tooltip_opacity := 1,
                         tooltip_text := js_string (userData_name object)\<rparr>
             in case event of
                  None \<Rightarrow> Threw TypeError ui
                | Some e \<Rightarrow>
                    Returned (ui\<lparr>tooltip_left := clientX e + 10,
                                  tooltip_top := clientY e + 10,
                                  anatomy_html :=
                                    ''<strong>'' @ js_string (userData_name object) @
                                    ''</strong><br>'' @ js_string (userData_info object),
                                  anatomy_background := ''rgba(14, 165, 233, 0.2)''\<rparr>))
          else Returned ui
      | [] \<Rightarrow>
          Returned (ui\<lparr>cursor := ''default'',
                        tooltip_opacity := 0,
                        anatomy_background := ''rgba(255,255,255,0.1)'',
                        anatomy_html := ''Hover over parts of the model to identify them.''\<rparr>))"

text \<open>
  \<^verbatim>\<open>cardiac-cross-section/logic.js\<close> lines 124-144: the same, without the two lines that
  read \<^verbatim>\<open>event\<close>, and with a border on the panel.
\<close>

definition cross_section_hover :: "scene_object list \<Rightarrow> hover_ui \<Rightarrow> hover_ui outcome" where
  "cross_section_hover intersects ui =
     (case intersects of
        object # _ \<Rightarrow>
          if truthy (userData_name object) then
            Returned (ui\<lparr>cursor := ''pointer'',
                          tooltip_opacity := 1,
                          tooltip_text := js_string (userData_name object),
                          anatomy_html :=
                            ''<strong>'' @ js_string (userData_name object) @
                            ''</strong><br>'' @ js_string (userData_info object),
                          anatomy_background := ''rgba(34, 211, 238, 0.2)'',
                          anatomy_border := ''1px solid #22d3ee''\<rparr>)
          else Returned ui
      | [] \<Rightarrow>
          Returned (ui\<lparr>cursor := ''default'',
                        tooltip_opacity := 0,
                        anatomy_background := ''rgba(255,255,255,0.05)'',
                        anatomy_border := ''none'',
                        anatomy_html := ''Hover over parts of the model to identify them.''\<rparr>))"

text \<open>
  The whole \<^verbatim>\<open>animate\<close> of the two files: the pulse, then the hover code, then
  \<^verbatim>\<open>controls.update()\<close> and \<^verbatim>\<open>renderer.render(scene, camera)\<close>, which a throw skips.
\<close>

definition heart_animate ::
  "pointer_event option \<Rightarrow> scene_object list \<Rightarrow> beat_state \<times> hover_ui \<Rightarrow>
   (beat_state \<times> hover_ui) outcome" where
  "heart_animate event intersects su =
     (let s = heart_pulse (fst su)
      in case heart_hover event intersects (snd su) of
           Returned ui \<Rightarrow> Returned (s, ui)
         | Threw e ui \<Rightarrow> Threw e (s, ui))"

definition cross_section_animate ::
  "scene_object list \<Rightarrow> beat_state \<times> hover_ui \<Rightarrow> (beat_state \<times> hover_ui) outcome" where
  "cross_section_animate intersects su =
     (let s = cross_section_pulse (fst su)
      in case cross_section_hover intersects (snd su) of
           Returned ui \<Rightarrow> Returned (s, ui)
         | Threw e ui \<Rightarrow> Threw e (s, ui))"

text \<open>The three named meshes of \<^verbatim>\<open>heart\<close> and \<^verbatim>\<open>cardiac-cross-section\<close>.\<close>

definition heart_ventricles :: scene_object where
  "heart_ventricles =
     \<lparr>obj_id = 0, userData_name = Some ''Ventricles'',
      userData_info = Some ''Pumps blood to lungs and body.''\<rparr>"

definition heart_atrium :: scene_object where
  "heart_atrium =
     \<lparr>obj_id = 1, userData_name = Some ''Atria'',
      userData_info = Some ''Receives blood from veins.''\<rparr>"

definition heart_aorta :: scene_object where
  "heart_aorta =
     \<lparr>obj_id = 2, userData_name = Some ''Aorta'',
      userData_info = Some ''Main artery carrying oxygenated blood.''\<rparr>"

text \<open>
  What \<^verbatim>\<open>animate\<close> keeps and writes in \<^verbatim>\<open>cardiac-cycle\<close>: the global \<^verbatim>\<open>hoveredObj\<close>,
  the label's title, description, opacity and position, and the emissive colour of each
  material, a store indexed by material.
\<close>

record label_ui =
  hoveredObj :: "cycle_object option"
  label_title :: string
  label_desc :: string
  label_opacity :: real
  label_position :: Vector3
  emissive_hex :: "nat \<Rightarrow> nat"

text \<open>
  \<^verbatim>\<open>if ( obj.material.emissive ) obj.material.emissive.setHex( hex )\<close>.
\<close>

definition set_emissive :: "cycle_object \<Rightarrow> nat \<Rightarrow> label_ui \<Rightarrow> label_ui" where
  "set_emissive obj hex ui =
     (if has_emissive obj
      then ui\<lparr>emissive_hex := (emissive_hex ui)(material_id obj := hex)\<rparr>
      else ui)"

text \<open>
  \<^verbatim>\<open>cardiac-cycle/logic.js\<close> lines 319-351:
  \<^verbatim>\<open>
  if ( intersects.length > 0 ) {
      const object = intersects[0].object;
      if ( hoveredObj !== object ) {
          if ( hoveredObj && hoveredObj.material.emissive ) hoveredObj.material.emissive.setHex( 0x000000 );
          hoveredObj = object;
          if ( hoveredObj.material.emissive ) hoveredObj.material.emissive.setHex( 0x330000 );
          if(object.userData.name) {
              labelDiv.querySelector('.label-title').innerText = object.userData.name;
              labelDiv.querySelector('.label-desc').innerText = object.userData.desc;
              labelDiv.style.opacity = 1;
              ... labelObj.position.copy(center);
          }
      }
  } else {
      if ( hoveredObj ) {
          if ( hoveredObj.material.emissive ) hoveredObj.material.emissive.setHex( 0x000000 );
          hoveredObj = null;
          labelDiv.style.opacity = 0;
      }
  }
  \<close>
  \<^verbatim>\<open>hoveredObj !== object\<close> compares references: the two are the same mesh exactly when
  their \<open>obj_id\<close> is the same, whatever the beat has since done to the mesh's scale and
  so to its bounding box in world space.
\<close>

definition cycle_hover :: "cycle_object list \<Rightarrow> label_ui \<Rightarrow> label_ui" where
  "cycle_hover intersects ui =
     (case intersects of
        object # _ \<Rightarrow>
          if map_option obj_id (hoveredObj ui) \<noteq> Some (obj_id object) then
            (let ui = (case hoveredObj ui of
                         Some old \<Rightarrow> set_emissive old 0 ui
                       | None \<Rightarrow> ui);
                 ui = ui\<lparr>hoveredObj := Some object\<rparr>;
                 ui = set_emissive object 0x330000 ui
             in if truthy (userData_name object) then
                  ui\<lparr>label_title := js_string (userData_name object),
                      label_desc := js_string (userData_info object),
                      label_opacity := 1,
                      label_position := bbox_center object\<rparr>
                else ui)
          else ui
      | [] \<Rightarrow>
          (case hoveredObj ui of
             Some old \<Rightarrow> (set_emissive old 0 ui)\<lparr>hoveredObj := None, label_opacity := 0\<rparr>
           | None \<Rightarrow> ui))"

section \<open>Verification\<close>

subsection \<open>The deformation loops, vertex by vertex\<close>

text \<open>
  After the loop has passed index \<open>i\<close>, every vertex below \<open>i\<close> is final and every
  vertex from \<open>i\<close> on is still the input vertex.
\<close>

declare deform_loop.simps [simp del]

declare cycle_deform_loop.simps [simp del]

lemma deform_body_eq:
  "deform_body taper stretch i p = p[i := deform_vertex taper stretch (p ! i)]"
  by (cases "i < length p")
     (simp_all add: deform_body_def Let_def getX_def getY_def getZ_def setX_def setY_def
        deform_vertex_def list_update_beyond)

lemma cycle_deform_body_eq:
  "cycle_deform_body i p = p[i := cycle_deform_vertex (p ! i)]"
  by (simp add: cycle_deform_body_def Let_def getX_def getY_def getZ_def setXYZ_def
        cycle_deform_vertex_def)

lemma deform_loop_eq:
  "i \<le> length p \<Longrightarrow>
   deform_loop taper stretch i p = take i p @ map (deform_vertex taper stretch) (drop i p)"
proof (induction taper stretch i p rule: deform_loop.induct)
  case (1 taper stretch i p)
  show ?case
  proof (cases "i < length p")
    case True
    let ?q = "p[i := deform_vertex taper stretch (p ! i)]"
    have "deform_loop taper stretch i p = deform_loop taper stretch (i + 1) ?q"
      using True by (subst deform_loop.simps) (simp add: attr_count_def deform_body_eq)
    also have "\<dots> = take (i + 1) ?q @ map (deform_vertex taper stretch) (drop (i + 1) ?q)"
      using "1.IH" True by (simp add: attr_count_def deform_body_eq)
    also have "take (i + 1) ?q = take i p @ [deform_vertex taper stretch (p ! i)]"
      using True by (simp add: take_Suc_conv_app_nth)
    also have "drop (i + 1) ?q = drop (i + 1) p"
      by simp
    finally show ?thesis
      using True by (simp add: Cons_nth_drop_Suc [symmetric])
  next
    case False
    with "1.prems" have "i = length p" by simp
    then show ?thesis
      by (subst deform_loop.simps) (simp add: attr_count_def)
  qed
qed

lemma cycle_deform_loop_eq:
  "i \<le> length p \<Longrightarrow>
   cycle_deform_loop i p = take i p @ map cycle_deform_vertex (drop i p)"
proof (induction i p rule: cycle_deform_loop.induct)
  case (1 i p)
  show ?case
  proof (cases "i < length p")
    case True
    let ?q = "p[i := cycle_deform_vertex (p ! i)]"
    have "cycle_deform_loop i p = cycle_deform_loop (i + 1) ?q"
      using True by (subst cycle_deform_loop.simps) (simp add: attr_count_def cycle_deform_body_eq)
    also have "\<dots> = take (i + 1) ?q @ map cycle_deform_vertex (drop (i + 1) ?q)"
      using "1.IH" True by (simp add: attr_count_def cycle_deform_body_eq)
    also have "take (i + 1) ?q = take i p @ [cycle_deform_vertex (p ! i)]"
      using True by (simp add: take_Suc_conv_app_nth)
    also have "drop (i + 1) ?q = drop (i + 1) p"
      by simp
    finally show ?thesis
      using True by (simp add: Cons_nth_drop_Suc [symmetric])
  next
    case False
    with "1.prems" have "i = length p" by simp
    then show ?thesis
      by (subst cycle_deform_loop.simps) (simp add: attr_count_def)
  qed
qed

lemma shape_deformer_map:
  "shape_deformer taper stretch p = map (deform_vertex taper stretch) p"
  by (simp add: shape_deformer_def deform_loop_eq)

lemma cycle_deformer_map: "cycle_deformer p = map cycle_deform_vertex p"
  by (simp add: cycle_deformer_def cycle_deform_loop_eq)

text \<open>
  Claim C1. For every surface, every taper \<open>t\<close> and stretch \<open>s\<close>, the Shape Deformer
  keeps the vertex count, and its output vertex \<open>i\<close> is the input vertex \<open>i = (x, y, z)\<close>
  moved to \<open>(x * (1 - y * t), y * s, z)\<close>: the new \<open>x\<close> is computed from the original
  \<open>y\<close>, and \<open>z\<close> is unchanged.
\<close>

theorem shape_deformer_vertices:
  "attr_count (shape_deformer t s p) = attr_count p \<and>
   (\<forall>i < attr_count p.
      getX (shape_deformer t s p) i = getX p i * (1 - getY p i * t) \<and>
      getY (shape_deformer t s p) i = getY p i * s \<and>
      getZ (shape_deformer t s p) i = getZ p i)"
  by (simp add: shape_deformer_map attr_count_def getX_def getY_def getZ_def deform_vertex_def)

theorem shape_deformer_vertices_witness:
  "(1::nat) < attr_count [Vector3 1 2 3, Vector3 4 5 6] \<and>
   attr_count (heart_deformer [Vector3 1 2 3, Vector3 4 5 6]) = 2 \<and>
   getX (heart_deformer [Vector3 1 2 3, Vector3 4 5 6]) 1 = 4 * (1 - 5 * (2 / 10)) \<and>
   getY (heart_deformer [Vector3 1 2 3, Vector3 4 5 6]) 1 = 5 * (12 / 10) \<and>
   getZ (heart_deformer [Vector3 1 2 3, Vector3 4 5 6]) 1 = 6"
proof -
  let ?p = "[Vector3 1 2 3, Vector3 4 5 6]"
  have bound: "(1::nat) < attr_count ?p"
    by (simp add: attr_count_def)
  have count: "attr_count (shape_deformer (2 / 10) (12 / 10) ?p) = attr_count ?p"
    using shape_deformer_vertices [of "2 / 10" "12 / 10" ?p] by blast
  have vertex:
    "getX (shape_deformer (2 / 10) (12 / 10) ?p) 1 = getX ?p 1 * (1 - getY ?p 1 * (2 / 10)) \<and>
     getY (shape_deformer (2 / 10) (12 / 10) ?p) 1 = getY ?p 1 * (12 / 10) \<and>
     getZ (shape_deformer (2 / 10) (12 / 10) ?p) 1 = getZ ?p 1"
    using shape_deformer_vertices [of "2 / 10" "12 / 10" ?p] bound by blast
  show ?thesis
    using bound count vertex
    by (simp add: heart_deformer_def attr_count_def getX_def getY_def getZ_def)
qed

subsection \<open>The deformers work in place, vertex by vertex\<close>

text \<open>
  Claim C8, as the code has it. The Shape Deformer is deterministic and keeps no state
  but the buffer it overwrites. Its output depends on the vertices and the shape constants
  only, vertex by vertex: two surfaces of the same size that agree at index \<open>i\<close> give
  outputs that agree at index \<open>i\<close>, so two separately built copies of a base surface give
  identical outputs. It is not pure: applied twice to the same surface, the second
  application deforms the vertices the first one left, and in \<^verbatim>\<open>heart\<close> and
  \<^verbatim>\<open>cardiac-cross-section\<close> vertex \<open>(x, y, z)\<close> ends at
  \<open>(x * (1 - y * t) * (1 - y * s * t), y * s * s, z)\<close>; in \<^verbatim>\<open>cardiac-cycle\<close> it ends at
  the vertex rule applied twice.
\<close>

theorem shape_deformer_in_place:
  assumes "attr_count p = attr_count q" and "i < attr_count p" and "p ! i = q ! i"
  shows "shape_deformer t s p ! i = shape_deformer t s q ! i \<and>
         cycle_deformer p ! i = cycle_deformer q ! i \<and>
         fst (deform_twice t s p) = shape_deformer t s p \<and>
         attr_count (snd (deform_twice t s p)) = attr_count p \<and>
         getX (snd (deform_twice t s p)) i
           = getX p i * (1 - getY p i * t) * (1 - getY p i * s * t) \<and>
         getY (snd (deform_twice t s p)) i = getY p i * s * s \<and>
         getZ (snd (deform_twice t s p)) i = getZ p i \<and>
         fst (cycle_deform_twice p) = cycle_deformer p \<and>
         snd (cycle_deform_twice p) ! i = cycle_deform_vertex (cycle_deform_vertex (p ! i))"
proof -
  have local: "shape_deformer t s p ! i = shape_deformer t s q ! i"
    "cycle_deformer p ! i = cycle_deformer q ! i"
    using assms by (simp_all add: shape_deformer_map cycle_deformer_map attr_count_def)
  have firsts: "fst (deform_twice t s p) = shape_deformer t s p"
    "fst (cycle_deform_twice p) = cycle_deformer p"
    by (simp_all add: deform_twice_def cycle_deform_twice_def Let_def)
  have second: "snd (deform_twice t s p) ! i = deform_vertex t s (deform_vertex t s (p ! i))"
    using assms(2) by (simp add: deform_twice_def Let_def shape_deformer_map attr_count_def)
  have count: "attr_count (snd (deform_twice t s p)) = attr_count p"
    by (simp add: deform_twice_def Let_def shape_deformer_map attr_count_def)
  have cycle: "snd (cycle_deform_twice p) ! i = cycle_deform_vertex (cycle_deform_vertex (p ! i))"
    using assms(2) by (simp add: cycle_deform_twice_def Let_def cycle_deformer_map attr_count_def)
  have coords:
    "getX (snd (deform_twice t s p)) i = getX p i * (1 - getY p i * t) * (1 - getY p i * s * t)"
    "getY (snd (deform_twice t s p)) i = getY p i * s * s"
    "getZ (snd (deform_twice t s p)) i = getZ p i"
    unfolding getX_def getY_def getZ_def second by (simp_all add: deform_vertex_def)
  show ?thesis
    using local firsts count coords cycle by blast
qed

theorem shape_deformer_in_place_witness:
  "attr_count [Vector3 1 2 3, Vector3 4 5 6] = attr_count [Vector3 9 9 9, Vector3 4 5 6] \<and>
   (1::nat) < attr_count [Vector3 1 2 3, Vector3 4 5 6] \<and>
   [Vector3 1 2 3, Vector3 4 5 6] ! 1 = [Vector3 9 9 9, Vector3 4 5 6] ! 1 \<and>
   heart_deformer [Vector3 1 2 3, Vector3 4 5 6] ! 1 =
     heart_deformer [Vector3 9 9 9, Vector3 4 5 6] ! 1 \<and>
   cycle_deformer [Vector3 1 2 3, Vector3 4 5 6] ! 1 =
     cycle_deformer [Vector3 9 9 9, Vector3 4 5 6] ! 1 \<and>
   getX (snd (deform_twice (2 / 10) (12 / 10) [Vector3 1 2 3, Vector3 4 5 6])) 1
     = 4 * (1 - 5 * (2 / 10)) * (1 - 5 * (12 / 10) * (2 / 10)) \<and>
   getY (snd (deform_twice (2 / 10) (12 / 10) [Vector3 1 2 3, Vector3 4 5 6])) 1
     = 5 * (12 / 10) * (12 / 10) \<and>
   getZ (snd (deform_twice (2 / 10) (12 / 10) [Vector3 1 2 3, Vector3 4 5 6])) 1 = 6"
proof -
  let ?p = "[Vector3 1 2 3, Vector3 4 5 6]" and ?q = "[Vector3 9 9 9, Vector3 4 5 6]"
  have size: "attr_count ?p = attr_count ?q"
    by (simp add: attr_count_def)
  have bound: "(1::nat) < attr_count ?p"
    by (simp add: attr_count_def)
  have same: "?p ! 1 = ?q ! 1"
    by simp
  have inputs: "getX ?p 1 = 4" "getY ?p 1 = 5" "getZ ?p 1 = 6"
    by (simp_all add: getX_def getY_def getZ_def)
  show ?thesis
    using size bound same
      shape_deformer_in_place [OF size bound same, of "2 / 10" "12 / 10"]
    unfolding heart_deformer_def inputs by blast
qed

text \<open>
  Against C8 as stated: applied twice to the surface with the one vertex \<open>(1, 1, 0)\<close>,
  the loop of \<^verbatim>\<open>heart\<close> leaves \<open>(0.8, 1.2, 0)\<close> the first time and
  \<open>(0.608, 1.44, 0)\<close> the second time.
\<close>

theorem deform_twice_differs_counterexample:
  "fst (deform_twice (2 / 10) (12 / 10) [Vector3 1 1 0]) = [Vector3 (8 / 10) (12 / 10) 0] \<and>
   snd (deform_twice (2 / 10) (12 / 10) [Vector3 1 1 0]) = [Vector3 (608 / 1000) (144 / 100) 0] \<and>
   snd (deform_twice (2 / 10) (12 / 10) [Vector3 1 1 0])
     \<noteq> fst (deform_twice (2 / 10) (12 / 10) [Vector3 1 1 0])"
  by (simp add: deform_twice_def Let_def shape_deformer_map deform_vertex_def)

text \<open>
  The loop of \<^verbatim>\<open>cardiac-cycle\<close> likewise: \<open>(1, -1, 1)\<close> goes to \<open>(0.75, -1, 0.75)\<close> and
  then to \<open>(0.5625, -1, 0.5625)\<close>.
\<close>

lemma cycle_deform_twice_differs:
  "cycle_deform_twice [Vector3 1 (- 1) 1] =
     ([Vector3 (75 / 100) (- 1) (75 / 100)], [Vector3 (5625 / 10000) (- 1) (5625 / 10000)])"
  by (simp add: cycle_deform_twice_def Let_def cycle_deformer_map cycle_deform_vertex_def)

subsection \<open>Properties of the sinusoidal pulse\<close>

text \<open>
  Claim C2. The ventricle scale \<open>1 + 0.05 * sin (time * 10)\<close> that \<^verbatim>\<open>animate\<close> sets in
  \<^verbatim>\<open>heart\<close> and \<^verbatim>\<open>cardiac-cross-section\<close> lies in \<open>[1 - 0.05, 1 + 0.05]\<close> on each axis.
  It holds in every state, so in particular whenever \<open>bpm > 0\<close> and \<open>time \<ge> 0\<close>.
\<close>

theorem ventricle_scale_bounded:
  "scale_within (1 - 5 / 100) (1 + 5 / 100) (ventricles_scale (heart_pulse s)) \<and>
   scale_within (1 - 5 / 100) (1 + 5 / 100) (ventricles_scale (cross_section_pulse s))"
proof -
  define a where "a = sin ((time s + (1 / 100) * (bpm s / 60)) * 10)"
  have lo: "- 1 \<le> a" and hi: "a \<le> 1"
    by (simp_all add: a_def)
  have h: "ventricles_scale (heart_pulse s) =
      Vector3 (1 + a * (5 / 100)) (1 + a * (5 / 100)) (1 + a * (5 / 100))"
    by (simp add: heart_pulse_def Let_def a_def)
  have c: "ventricles_scale (cross_section_pulse s) =
      Vector3 (1 + a * (5 / 100)) (1 + a * (5 / 100)) (1 + a * (5 / 100))"
    by (simp add: cross_section_pulse_def Let_def a_def)
  show ?thesis
    unfolding h c scale_within_def Vector3.sel using lo hi by simp
qed

text \<open>
  Claim C3, as the code has it. \<^verbatim>\<open>heart\<close> and \<^verbatim>\<open>cardiac-cross-section\<close> advance
  \<^verbatim>\<open>time\<close> by \<open>0.01 * (bpm / 60)\<close> on every frame, \<open>0.01\<close> being the fixed tick length.
  \<^verbatim>\<open>cardiac-cycle\<close> advances \<^verbatim>\<open>time\<close> by \<open>0.01\<close> whatever \<^verbatim>\<open>bpm\<close> is; there \<^verbatim>\<open>bpm\<close>
  scales the angle instead, through \<^verbatim>\<open>beatSpeed\<close>.
\<close>

theorem time_advance_per_frame:
  "time (heart_pulse s) = time s + (1 / 100) * (bpm s / 60) \<and>
   time (cross_section_pulse s) = time s + (1 / 100) * (bpm s / 60) \<and>
   time (cycle_beat s) = time s + 1 / 100 \<and>
   cycle_phase (cycle_beat s) = (time s + 1 / 100) * ((bpm s / 60) * pi * 2)"
  by (simp add: heart_pulse_def cross_section_pulse_def cycle_beat_def cycle_phase_def Let_def)

text \<open>
  Against C3 as stated: in \<^verbatim>\<open>cardiac-cycle\<close>, with the slider at 120, one frame moves
  \<^verbatim>\<open>time\<close> by \<open>0.01\<close> and not by \<open>0.01 * (120 / 60)\<close>.
\<close>

theorem time_advance_cycle_counterexample:
  "time (cycle_beat (cycle_bpm_input 120 cycle_init)) - time (cycle_bpm_input 120 cycle_init)
     \<noteq> (1 / 100) * (bpm (cycle_bpm_input 120 cycle_init) / 60)"
  by (simp add: cycle_beat_def cycle_bpm_input_def cycle_init_def Let_def)

text \<open>
  Claim C7. With the tick length fixed, the growth of the phase angle over one frame is
  strictly increasing in \<^verbatim>\<open>bpm\<close>: it is \<open>bpm / 600\<close> in \<^verbatim>\<open>heart\<close> and
  \<^verbatim>\<open>cardiac-cross-section\<close>, and \<open>bpm * pi / 3000\<close> in \<^verbatim>\<open>cardiac-cycle\<close>.
\<close>

theorem phase_advance_monotone:
  assumes "bpm s1 < bpm s2"
  shows "heart_phase (heart_pulse s1) - heart_phase s1
           < heart_phase (heart_pulse s2) - heart_phase s2 \<and>
         heart_phase (cross_section_pulse s1) - heart_phase s1
           < heart_phase (cross_section_pulse s2) - heart_phase s2 \<and>
         cycle_phase (cycle_beat s1) - cycle_phase s1
           < cycle_phase (cycle_beat s2) - cycle_phase s2"
proof -
  have h: "heart_phase (heart_pulse s) - heart_phase s = bpm s / 600" for s
    by (simp add: heart_phase_def heart_pulse_def Let_def algebra_simps)
  have x: "heart_phase (cross_section_pulse s) - heart_phase s = bpm s / 600" for s
    by (simp add: heart_phase_def cross_section_pulse_def Let_def algebra_simps)
  have c: "cycle_phase (cycle_beat s) - cycle_phase s = bpm s * (pi / 3000)" for s
    by (simp add: cycle_phase_def cycle_beat_def Let_def algebra_simps)
  have "bpm s1 * (pi / 3000) < bpm s2 * (pi / 3000)"
    using assms by (simp add: mult_strict_right_mono)
  then show ?thesis
    unfolding h x c using assms by simp
qed

theorem phase_advance_monotone_witness:
  "bpm heart_init < bpm (heart_bpm_input 120 heart_init) \<and>
   heart_phase (heart_pulse heart_init) - heart_phase heart_init
     < heart_phase (heart_pulse (heart_bpm_input 120 heart_init))
         - heart_phase (heart_bpm_input 120 heart_init) \<and>
   bpm cycle_init < bpm (cycle_bpm_input 120 cycle_init) \<and>
   cycle_phase (cycle_beat cycle_init) - cycle_phase cycle_init
     < cycle_phase (cycle_beat (cycle_bpm_input 120 cycle_init))
         - cycle_phase (cycle_bpm_input 120 cycle_init)"
proof -
  have heart: "bpm heart_init < bpm (heart_bpm_input 120 heart_init)"
    by (simp add: heart_init_def heart_bpm_input_def)
  have cycle: "bpm cycle_init < bpm (cycle_bpm_input 120 cycle_init)"
    by (simp add: cycle_init_def cycle_bpm_input_def)
  show ?thesis
    using heart cycle phase_advance_monotone [OF heart] phase_advance_monotone [OF cycle]
    by blast
qed

subsection \<open>Zero beats per minute\<close>

lemma heart_pulse_stalled:
  "bpm s = 0 \<Longrightarrow> time ((heart_pulse ^^ n) s) = time s \<and> bpm ((heart_pulse ^^ n) s) = 0"
  by (induction n) (simp_all add: heart_pulse_def Let_def)

text \<open>
  Claim C5, as the code has it. No handler and no frame clamps \<^verbatim>\<open>bpm\<close>: a slider value
  of 0 is stored and used as 0. \<^verbatim>\<open>bpm\<close> is only ever divided by the constant 60, so
  nothing is divided by zero. In \<^verbatim>\<open>heart\<close> and \<^verbatim>\<open>cardiac-cross-section\<close> the clock
  \<^verbatim>\<open>time\<close> then stands still, for any number of frames. In \<^verbatim>\<open>cardiac-cycle\<close> the clock
  still moves by \<open>0.01\<close> a frame, the angle is 0, and the ventricle is moved toward
  scale 1.
\<close>

theorem bpm_zero_unclamped:
  "bpm (heart_bpm_input 0 s) = 0 \<and>
   time ((heart_pulse ^^ n) (heart_bpm_input 0 s)) = time s \<and>
   bpm (cross_section_bpm_input 0 s) = 0 \<and>
   time (cross_section_pulse (cross_section_bpm_input 0 s)) = time s \<and>
   bpm (cycle_bpm_input 0 s) = 0 \<and>
   time (cycle_beat (cycle_bpm_input 0 s)) = time s + 1 / 100 \<and>
   cycle_phase (cycle_beat (cycle_bpm_input 0 s)) = 0 \<and>
   ventricles_scale (cycle_beat (cycle_bpm_input 0 s)) =
     lerp (ventricles_scale s) (Vector3 1 1 1) (2 / 10)"
proof -
  have "time ((heart_pulse ^^ n) (heart_bpm_input 0 s)) = time s"
    using heart_pulse_stalled [of "heart_bpm_input 0 s" n] by (simp add: heart_bpm_input_def)
  then show ?thesis
    by (simp add: heart_bpm_input_def cross_section_bpm_input_def cross_section_pulse_def
          cycle_bpm_input_def cycle_beat_def cycle_phase_def Let_def)
qed

text \<open>
  Against C5 as stated: in \<^verbatim>\<open>heart\<close>, after a slider input of 0 the stored \<^verbatim>\<open>bpm\<close> is
  0, and a frame leaves \<^verbatim>\<open>time\<close> where it was.
\<close>

theorem bpm_zero_stalls_counterexample:
  "bpm (heart_bpm_input 0 heart_init) = 0 \<and>
   time (heart_pulse (heart_bpm_input 0 heart_init)) = time (heart_bpm_input 0 heart_init)"
  by (simp add: heart_bpm_input_def heart_init_def heart_pulse_def Let_def)

subsection \<open>Which axes the pulse scales\<close>

lemma sin_eleven_tenths_pos: "0 < sin (11 / 10 :: real)"
proof -
  have "(11 / 10 :: real) < pi"
    using pi_ge_two by simp
  then show ?thesis
    by (intro sin_gt_zero) simp_all
qed

text \<open>
  Claim C6, as the code has it. On every frame of \<^verbatim>\<open>heart\<close> and
  \<^verbatim>\<open>cardiac-cross-section\<close> the ventricle gets the same factor
  \<open>1 + 0.05 * sin phase\<close> on all three axes. The atrium gets
  \<open>1 + 0.03 * sin (phase + 1)\<close> on the x axis only, and exactly 1 on the y and z axes;
  its phase offset is 1 radian.
\<close>

theorem pulse_scales_applied:
  "ventricles_scale (heart_pulse s) =
     Vector3 (1 + sin (heart_phase (heart_pulse s)) * (5 / 100))
             (1 + sin (heart_phase (heart_pulse s)) * (5 / 100))
             (1 + sin (heart_phase (heart_pulse s)) * (5 / 100)) \<and>
   atrium_scale (heart_pulse s) =
     Vector3 (1 + sin (heart_phase (heart_pulse s) + 1) * (3 / 100)) 1 1 \<and>
   ventricles_scale (cross_section_pulse s) =
     Vector3 (1 + sin (heart_phase (cross_section_pulse s)) * (5 / 100))
             (1 + sin (heart_phase (cross_section_pulse s)) * (5 / 100))
             (1 + sin (heart_phase (cross_section_pulse s)) * (5 / 100)) \<and>
   atrium_scale (cross_section_pulse s) =
     Vector3 (1 + sin (heart_phase (cross_section_pulse s) + 1) * (3 / 100)) 1 1"
  by (simp add: heart_pulse_def cross_section_pulse_def heart_phase_def Let_def)

text \<open>
  Against C6 as stated: after the first frame of \<^verbatim>\<open>heart\<close> the atrium's y factor is 1
  and its x factor is \<open>1 + 0.03 * sin 1.1\<close>, which is larger.
\<close>

theorem atrium_scale_not_uniform_counterexample:
  "vy (atrium_scale (heart_pulse heart_init)) \<noteq> vx (atrium_scale (heart_pulse heart_init))"
  using sin_eleven_tenths_pos by (simp add: heart_pulse_def heart_init_def Let_def)

subsection \<open>The lub-dub beat of cardiac-cycle\<close>

text \<open>
  Claim C4. On every frame of \<^verbatim>\<open>cardiac-cycle\<close> the target contraction is
  \<open>1 + (if sin (phase * 2) > 0.5 then 0.05 else 0)\<close>, with \<open>phase = time * beatSpeed\<close> at
  the advanced \<^verbatim>\<open>time\<close>, and each component of the ventricle scale moves from its current
  value toward the target by \<open>(target - current) * 0.2\<close>.
\<close>

theorem cycle_beat_lerps_to_target:
  "ventricles_scale (cycle_beat s) =
     (let phase = cycle_phase (cycle_beat s);
          target = 1 + (if sin (phase * 2) > 5 / 10 then 5 / 100 else 0);
          current = ventricles_scale s
      in Vector3 (vx current + (target - vx current) * (2 / 10))
                 (vy current + (target - vy current) * (2 / 10))
                 (vz current + (target - vz current) * (2 / 10)))"
  by (simp add: cycle_beat_def cycle_phase_def lerp_def Let_def)

text \<open>
  A frame on which the target is \<open>1.05\<close>: with \<^verbatim>\<open>bpm\<close> 75 and \<^verbatim>\<open>time\<close> advanced to
  \<open>0.1\<close>, twice the phase is \<open>pi / 2\<close>. The scale goes from 1 to \<open>1.01\<close>, not to the
  target.
\<close>

lemma cycle_beat_not_snapped:
  "ventricles_scale (cycle_beat (cycle_init\<lparr>time := 9 / 100\<rparr>)) =
     Vector3 (101 / 100) (101 / 100) (101 / 100)"
proof -
  have "(9 / 100 + 1 / 100) * ((75 / 60) * pi * 2) * 2 = pi / 2"
    by simp
  then have "sin ((9 / 100 + 1 / 100) * ((75 / 60) * pi * 2) * 2) = 1"
    by (simp only: sin_pi_half)
  then show ?thesis
    by (simp add: cycle_beat_def cycle_init_def lerp_def Let_def)
qed

lemma lerp_step_bounds:
  fixes c t :: real
  assumes "1 \<le> c" "c \<le> 105 / 100" "1 \<le> t" "t \<le> 105 / 100"
  shows "1 \<le> c + (t - c) * (2 / 10)" and "c + (t - c) * (2 / 10) \<le> 105 / 100"
  using assms by argo+

lemma cycle_beat_within:
  assumes "scale_within 1 (105 / 100) (ventricles_scale s)"
  shows "scale_within 1 (105 / 100) (ventricles_scale (cycle_beat s))"
proof -
  define t where
    "t = 1 + (if sin ((time s + 1 / 100) * ((bpm s / 60) * pi * 2) * 2) > 5 / 10
              then 5 / 100 else (0::real))"
  have t: "1 \<le> t" "t \<le> 105 / 100"
    by (simp_all add: t_def)
  have eq: "ventricles_scale (cycle_beat s) = lerp (ventricles_scale s) (Vector3 t t t) (2 / 10)"
    by (simp add: cycle_beat_def Let_def t_def)
  show ?thesis
    unfolding eq scale_within_def lerp_def Vector3.sel
    using assms t lerp_step_bounds [of _ t]
    unfolding scale_within_def by blast
qed

lemma cycle_step_within:
  "scale_within 1 (105 / 100) (ventricles_scale s) \<Longrightarrow>
   scale_within 1 (105 / 100) (ventricles_scale (cycle_step e s))"
proof (cases e)
  case Frame
  assume "scale_within 1 (105 / 100) (ventricles_scale s)"
  then show ?thesis
    unfolding Frame cycle_step.simps by (rule cycle_beat_within)
next
  case (SliderInput v)
  have "ventricles_scale (cycle_step e s) = ventricles_scale s"
    by (simp add: SliderInput cycle_bpm_input_def)
  moreover assume "scale_within 1 (105 / 100) (ventricles_scale s)"
  ultimately show ?thesis
    by (simp only:)
qed

lemma cycle_run_within:
  "scale_within 1 (105 / 100) (ventricles_scale s) \<Longrightarrow>
   scale_within 1 (105 / 100) (ventricles_scale (cycle_run evs s))"
  unfolding cycle_run_def
proof (induction evs arbitrary: s)
  case Nil
  then show ?case
    by (simp only: fold.simps id_apply)
next
  case (Cons e evs)
  have "scale_within 1 (105 / 100) (ventricles_scale (cycle_step e s))"
    using Cons.prems by (rule cycle_step_within)
  then have "scale_within 1 (105 / 100) (ventricles_scale (fold cycle_step evs (cycle_step e s)))"
    by (rule Cons.IH)
  then show ?case
    by (simp only: fold.simps comp_apply)
qed

text \<open>
  Claim C10. In \<^verbatim>\<open>cardiac-cycle\<close>, after any sequence of frames and slider inputs from
  the initial state, every component of the ventricle scale lies in \<open>[1, 1.05]\<close>.
\<close>

theorem cycle_ventricle_scale_range:
  "scale_within 1 (105 / 100) (ventricles_scale (cycle_run evs cycle_init))"
  by (rule cycle_run_within) (simp add: scale_within_def cycle_init_def)

subsection \<open>What the hover code shows\<close>

text \<open>
  Claim C9. With no hit, every variant returns without throwing: \<^verbatim>\<open>heart\<close> (whatever
  \<^verbatim>\<open>event\<close> is) and \<^verbatim>\<open>cardiac-cross-section\<close> show the default prompt and hide the
  tooltip, \<^verbatim>\<open>cardiac-cycle\<close> ends with nothing hovered. With the ventricles as nearest
  hit, \<^verbatim>\<open>cardiac-cross-section\<close> shows their name and description. \<^verbatim>\<open>heart\<close> does not:
  with \<^verbatim>\<open>event\<close> undefined, as it is when \<^verbatim>\<open>animate\<close> runs, it throws a \<^verbatim>\<open>TypeError\<close>
  after writing the name to the tooltip, and the description never reaches the panel.
\<close>

theorem hover_pick_outcomes:
  "heart_hover event [] ui =
     Returned (ui\<lparr>cursor := ''default'', tooltip_opacity := 0,
                   anatomy_background := ''rgba(255,255,255,0.1)'',
                   anatomy_html := ''Hover over parts of the model to identify them.''\<rparr>) \<and>
   cross_section_hover [] ui =
     Returned (ui\<lparr>cursor := ''default'', tooltip_opacity := 0,
                   anatomy_background := ''rgba(255,255,255,0.05)'',
                   anatomy_border := ''none'',
                   anatomy_html := ''Hover over parts of the model to identify them.''\<rparr>) \<and>
   hoveredObj (cycle_hover [] l) = None \<and>
   cross_section_hover (heart_ventricles # rest) ui =
     Returned (ui\<lparr>cursor := ''pointer'', tooltip_opacity := 1,
                   tooltip_text := ''Ventricles'',
                   anatomy_html := ''<strong>Ventricles</strong><br>Pumps blood to lungs and body.'',
                   anatomy_background := ''rgba(34, 211, 238, 0.2)'',
                   anatomy_border := ''1px solid #22d3ee''\<rparr>) \<and>
   heart_hover None (heart_ventricles # rest) ui =
     Threw TypeError (ui\<lparr>cursor := ''pointer'', tooltip_opacity := 1,
                          tooltip_text := ''Ventricles''\<rparr>) \<and>
   heart_animate None (heart_ventricles # rest) (s, ui) =
     Threw TypeError (heart_pulse s,
                      ui\<lparr>cursor := ''pointer'', tooltip_opacity := 1,
                         tooltip_text := ''Ventricles''\<rparr>)"
proof -
  have empty_heart: "heart_hover event [] ui =
     Returned (ui\<lparr>cursor := ''default'', tooltip_opacity := 0,
                   anatomy_background := ''rgba(255,255,255,0.1)'',
                   anatomy_html := ''Hover over parts of the model to identify them.''\<rparr>)"
    by (simp add: heart_hover_def)
  have empty_cross: "cross_section_hover [] ui =
     Returned (ui\<lparr>cursor := ''default'', tooltip_opacity := 0,
                   anatomy_background := ''rgba(255,255,255,0.05)'',
                   anatomy_border := ''none'',
                   anatomy_html := ''Hover over parts of the model to identify them.''\<rparr>)"
    by (simp add: cross_section_hover_def)
  have empty_cycle: "hoveredObj (cycle_hover [] l) = None"
    by (simp add: cycle_hover_def split: option.split)
  have hit_cross: "cross_section_hover (heart_ventricles # rest) ui =
     Returned (ui\<lparr>cursor := ''pointer'', tooltip_opacity := 1,
                   tooltip_text := ''Ventricles'',
                   anatomy_html := ''<strong>Ventricles</strong><br>Pumps blood to lungs and body.'',
                   anatomy_background := ''rgba(34, 211, 238, 0.2)'',
                   anatomy_border := ''1px solid #22d3ee''\<rparr>)"
    by (simp add: cross_section_hover_def heart_ventricles_def)
  have hit_heart: "heart_hover None (heart_ventricles # rest) ui =
     Threw TypeError (ui\<lparr>cursor := ''pointer'', tooltip_opacity := 1,
                          tooltip_text := ''Ventricles''\<rparr>)"
    by (simp add: heart_hover_def heart_ventricles_def)
  have hit_animate: "heart_animate None (heart_ventricles # rest) (s, ui) =
     Threw TypeError (heart_pulse s,
                      ui\<lparr>cursor := ''pointer'', tooltip_opacity := 1,
                         tooltip_text := ''Ventricles''\<rparr>)"
    by (simp add: heart_animate_def hit_heart)
  show ?thesis
    using empty_heart empty_cross empty_cycle hit_cross hit_heart hit_animate by blast
qed

end
